theory Spec2Isabelle
  imports Main
begin

section \<open>The references view tree (src/tree.ts)\<close>

text \<open>
  The module is event driven: every method runs to completion, and what it leaves
  behind are promise reactions that the host runs later. The embedding keeps one record
  for the three objects of the module (the controller \<open>SymbolsTree\<close>, its
  \<open>TreeDataProviderDelegate\<close> and its \<open>TreeInputHistory\<close>) together with the part
  of the host they talk to: the promises they created, the listeners they registered on
  providers, and the view's title, message and visibility. A method is a function from
  state to state; a reaction is a function from state to state as well, run by the event
  that settles its promise.
\<close>

subsection \<open>Values\<close>

text \<open>A rejection reason. \<open>MISSING_provider\<close> is \<open>new Error('MISSING provider')\<close>;
  every other reason comes from outside the module.\<close>

datatype error = MISSING_provider | Failure string

text \<open>The state of a promise as the module can observe it.\<close>

datatype 'a promise = Pending | Fulfilled 'a | Rejected error

type_synonym position = "nat \<times> nat"
type_synonym range = "position \<times> position"

text \<open>The one regular expression the module passes to the host: a run of characters
  that are not white space (the negated class of the white space escape, one or more
  times).\<close>

datatype regex = NonWhitespaceRun

text \<open>The two methods of \<open>vscode.TextDocument\<close> that \<open>add\<close> calls. The second argument
  of \<open>getWordRangeAtPosition\<close> is the optional regular expression; without it the host
  uses the word pattern of the document's language.\<close>

record TextDocument =
  getWordRangeAtPosition :: "position \<Rightarrow> regex option \<Rightarrow> range option"
  getText :: "range \<Rightarrow> string"

text \<open>\<open>interface SymbolTreeInput\<close>. Inputs are objects, and \<open>setInput\<close> compares them by
  reference; \<open>ident\<close> is the reference. \<open>hash\<close> is the value \<open>hash()\<close> returns.\<close>

record SymbolTreeInput =
  ident :: nat
  title :: string
  uri :: string
  position :: position
  hash :: string

text \<open>\<open>interface SymbolTreeModel\<close>. \<open>provider\<close> is the reference of the provider object,
  \<open>provider_dispose\<close> says whether \<open>typeof provider.dispose === 'function'\<close>, and
  \<open>navigation\<close> is the \<open>nearest\<close> method of the optional navigation object (the only one
  this file calls); items of a tree are references as well.\<close>

record SymbolTreeModel =
  message :: "string option"
  provider :: nat
  provider_dispose :: bool
  navigation :: "(string \<Rightarrow> position \<Rightarrow> nat option) option"

text \<open>Modelled from the spec: \<open>WordAnchor\<close> (./history) is not part of the sources; it is
  "a position tracker" created from a document and a position and used opaquely.\<close>

datatype WordAnchor = WordAnchor TextDocument position

text \<open>\<open>class HistoryItem\<close>.\<close>

record HistoryItem =
  word :: string
  anchor :: WordAnchor
  input :: SymbolTreeInput

text \<open>What a provider promise is fulfilled with: the provider of a model, or the history
  store itself (\<open>Promise.resolve(this._history)\<close>).\<close>

datatype provider_ref = ModelProvider nat | HistoryProvider

text \<open>A listener registered on a provider's \<open>onDidChangeTreeData\<close>: the controller's
  closure of \<open>setInput\<close>, which holds the input object and the model (by reference) and
  writes \<open>input.title\<close> and \<open>model.message\<close>, read when the event fires, to the view;
  or the delegate's \<open>this._onDidChange.fire\<close>.\<close>

datatype listener = Refresh nat nat | Relay

record subscription =
  sub_id :: nat
  source :: provider_ref
  action :: listener

text \<open>A \<open>vscode.Disposable\<close>: the handle a subscription returns, or a provider that has a
  \<open>dispose\<close> method.\<close>

datatype disposable = Unsubscribe nat | DisposeProvider nat

text \<open>The object that \<open>vscode.Disposable.from(...ds)\<close> returns: its \<open>dispose()\<close>
  disposes the members the first time it is called, and does nothing after that.\<close>

record session_disposable =
  members :: "disposable list"
  spent :: bool

text \<open>The reactions waiting on a provider promise: those of a \<open>setInput\<close> call (they need
  the input the call was made with), or those of \<open>clearInput\<close>, whose promise is
  fulfilled from the start.\<close>

datatype reaction = Session SymbolTreeInput | HistoryReady

subsection \<open>State\<close>

text \<open>Modelled from the spec: \<open>ContextKey\<close> (./models) is not part of the sources; it is a
  named boolean flag that this module sets. A flag is \<open>None\<close> until it is first set.

  Inputs and models are objects of the caller, and the module reads \<open>input.title\<close> and
  \<open>model.message\<close> again whenever the model's provider reports a change. A record of
  type \<open>SymbolTreeInput\<close> or \<open>SymbolTreeModel\<close> is the object as it was when the module
  received it; \<open>input_title\<close> is the title an input object has now, by its reference,
  and \<open>model_message\<close> is the message a model has now, by the promise that delivered
  it.\<close>

record state =
  \<comment> \<open>TreeDataProviderDelegate\<close>
  d_provider :: "nat option"
  d_sessionDispoables :: "disposable option"
  d_onDidChange :: nat
  d_onDidChangeTreeData :: nat
  d_fired :: nat
  \<comment> \<open>SymbolsTree\<close>
  ctxIsActive :: "bool option"
  ctxHasResult :: "bool option"
  c_input :: "SymbolTreeInput option"
  c_sessionDisposable :: "session_disposable option"
  tree_title :: string
  tree_message :: "string option"
  tree_visible :: bool
  reveals :: "nat list"
  focus_requests :: nat
  tree_disposed :: bool
  \<comment> \<open>TreeInputHistory\<close>
  ctxHasHistory :: "bool option"
  h_inputs :: "(string \<times> nat) list"
  \<comment> \<open>host\<close>
  next_id :: nat
  promises :: "nat \<Rightarrow> provider_ref promise"
  pending :: "nat \<Rightarrow> reaction option"
  items :: "nat \<Rightarrow> HistoryItem promise"
  loading :: "nat \<Rightarrow> SymbolTreeInput option"
  live :: "subscription list"
  disposed :: "nat list"
  input_title :: "nat \<Rightarrow> string"
  model_message :: "nat \<Rightarrow> string option"

text \<open>The state after the constructors have run (the view's title and message are the
  host's; they are empty until the module writes them).\<close>

definition init :: state where
  "init = \<lparr>d_provider = None, d_sessionDispoables = None, d_onDidChange = 0,
     d_onDidChangeTreeData = 0, d_fired = 0,
     ctxIsActive = None, ctxHasResult = None, c_input = None, c_sessionDisposable = None,
     tree_title = [], tree_message = None, tree_visible = True, reveals = [],
     focus_requests = 0, tree_disposed = False,
     ctxHasHistory = None, h_inputs = [],
     next_id = 0, promises = (\<lambda>_. Pending), pending = (\<lambda>_. None),
     items = (\<lambda>_. Pending), loading = (\<lambda>_. None), live = [], disposed = [],
     input_title = (\<lambda>_. []), model_message = (\<lambda>_. None)\<rparr>"

subsection \<open>Host operations\<close>

text \<open>\<open>emitter.event(listener)\<close>: the listener is live until its handle is disposed.\<close>

definition subscribe :: "provider_ref \<Rightarrow> listener \<Rightarrow> state \<Rightarrow> disposable \<times> state" where
  "subscribe src l s =
     (let i = next_id s
      in (Unsubscribe i,
          s\<lparr>next_id := Suc i,
            live := live s @ [\<lparr>sub_id = i, source = src, action = l\<rparr>]\<rparr>))"

text \<open>\<open>d.dispose()\<close>: a subscription handle removes its listener; a provider's \<open>dispose\<close>
  is recorded.\<close>

fun dispose_handle :: "disposable \<Rightarrow> state \<Rightarrow> state" where
  "dispose_handle (Unsubscribe i) s = s\<lparr>live := filter (\<lambda>x. sub_id x \<noteq> i) (live s)\<rparr>"
| "dispose_handle (DisposeProvider p) s = s\<lparr>disposed := disposed s @ [p]\<rparr>"

text \<open>The loop of \<open>vscode.Disposable.from(...ds)\<close> over its members.\<close>

fun dispose_all :: "disposable list \<Rightarrow> state \<Rightarrow> state" where
  "dispose_all [] s = s"
| "dispose_all (d # ds) s = dispose_all ds (dispose_handle d s)"

text \<open>What a listener does when its event fires.\<close>

fun run_listener :: "listener \<Rightarrow> state \<Rightarrow> state" where
  "run_listener (Refresh i k) s =
     s\<lparr>tree_title := input_title s i, tree_message := model_message s k\<rparr>"
| "run_listener Relay s = s\<lparr>d_fired := Suc (d_fired s)\<rparr>"

fun run_listeners :: "subscription list \<Rightarrow> state \<Rightarrow> state" where
  "run_listeners [] s = s"
| "run_listeners (x # xs) s = run_listeners xs (run_listener (action x) s)"

text \<open>A provider fires its \<open>onDidChangeTreeData\<close>: its live listeners run in the order
  they were registered.\<close>

definition fire :: "provider_ref \<Rightarrow> state \<Rightarrow> state" where
  "fire src s = run_listeners (filter (\<lambda>x. source x = src) (live s)) s"

text \<open>\<open>Promise.all\<close> over promises in the states given: rejected with the reason of the
  first rejected one, fulfilled with all values when all are fulfilled, pending
  otherwise.\<close>

fun promise_all :: "'a promise list \<Rightarrow> 'a list promise" where
  "promise_all [] = Fulfilled []"
| "promise_all (Rejected e # ps) = Rejected e"
| "promise_all (Pending # ps) =
     (case promise_all ps of Rejected e \<Rightarrow> Rejected e | _ \<Rightarrow> Pending)"
| "promise_all (Fulfilled v # ps) =
     (case promise_all ps of
        Fulfilled vs \<Rightarrow> Fulfilled (v # vs)
      | Pending \<Rightarrow> Pending
      | Rejected e \<Rightarrow> Rejected e)"

text \<open>A JavaScript \<open>Map\<close> keeps its entries in insertion order: \<open>delete\<close> removes the
  entry of a key, \<open>set\<close> overwrites the value of a key in place or appends a new entry.\<close>

definition map_delete :: "'k \<Rightarrow> ('k \<times> 'v) list \<Rightarrow> ('k \<times> 'v) list" where
  "map_delete k m = filter (\<lambda>e. fst e \<noteq> k) m"

definition map_set :: "'k \<Rightarrow> 'v \<Rightarrow> ('k \<times> 'v) list \<Rightarrow> ('k \<times> 'v) list" where
  "map_set k v m =
     (if k \<in> set (map fst m)
      then map (\<lambda>e. if fst e = k then (k, v) else e) m
      else m @ [(k, v)])"

subsection \<open>TreeDataProviderDelegate\<close>

text \<open>\<open>update(provider)\<close>, up to the registration of the two reactions.\<close>

definition update :: "nat \<Rightarrow> state \<Rightarrow> state" where
  "update p s =
     (let s1 = (case d_sessionDispoables s of None \<Rightarrow> s | Some d \<Rightarrow> dispose_handle d s);
          s2 = s1\<lparr>d_sessionDispoables := None\<rparr>;
          s3 = s2\<lparr>d_fired := Suc (d_fired s2)\<rparr>
      in s3\<lparr>d_provider := Some p\<rparr>)"

text \<open>The reaction \<open>value => { if (this.provider === provider) ... }\<close> of \<open>update\<close>.\<close>

definition update_then :: "nat \<Rightarrow> provider_ref \<Rightarrow> state \<Rightarrow> state" where
  "update_then p v s =
     (if d_provider s = Some p
      then (let (d, s1) = subscribe v Relay s in s1\<lparr>d_sessionDispoables := Some d\<rparr>)
      else s)"

text \<open>The reaction \<open>err => { this.provider = undefined; console.error(err); }\<close>.\<close>

definition update_catch :: "nat \<Rightarrow> error \<Rightarrow> state \<Rightarrow> state" where
  "update_catch p err s = s\<lparr>d_provider := None\<rparr>"

text \<open>\<open>_assertProvider()\<close>.\<close>

definition assertProvider :: "state \<Rightarrow> error + unit" where
  "assertProvider s = (if d_provider s = None then Inl MISSING_provider else Inr ())"

text \<open>The three accessors are \<open>async\<close>: they return a promise. It is rejected when the
  assertion throws; otherwise it follows \<open>await this.provider\<close> and is fulfilled with the
  call on the awaited provider, which is the provider's business.\<close>

datatype request = GetTreeItem nat | GetChildren "nat option" | GetParent nat

datatype forwarded = Forward provider_ref request

definition forward :: "state \<Rightarrow> request \<Rightarrow> forwarded promise" where
  "forward s r =
     (case assertProvider s of
        Inl e \<Rightarrow> Rejected e
      | Inr _ \<Rightarrow>
          (case d_provider s of
             None \<Rightarrow> Rejected MISSING_provider
           | Some p \<Rightarrow>
               (case promises s p of
                  Pending \<Rightarrow> Pending
                | Rejected e \<Rightarrow> Rejected e
                | Fulfilled v \<Rightarrow> Fulfilled (Forward v r))))"

definition getTreeItem :: "state \<Rightarrow> nat \<Rightarrow> forwarded promise" where
  "getTreeItem s element = forward s (GetTreeItem element)"

definition getChildren :: "state \<Rightarrow> nat option \<Rightarrow> forwarded promise" where
  "getChildren s parent = forward s (GetChildren parent)"

definition getParent :: "state \<Rightarrow> nat \<Rightarrow> forwarded promise" where
  "getParent s element = forward s (GetParent element)"

subsection \<open>TreeInputHistory\<close>

text \<open>\<open>a ?? b\<close>.\<close>

definition nullish :: "'a option \<Rightarrow> 'a option \<Rightarrow> 'a option" where
  "nullish a b = (case a of None \<Rightarrow> b | Some x \<Rightarrow> Some x)"

text \<open>The reaction of \<open>add\<close> on the opened document.\<close>

definition add_then :: "SymbolTreeInput \<Rightarrow> TextDocument \<Rightarrow> HistoryItem" where
  "add_then inp doc =
     (let anchor = WordAnchor doc (position inp);
          range = nullish (getWordRangeAtPosition doc (position inp) None)
                    (getWordRangeAtPosition doc (position inp) (Some NonWhitespaceRun));
          word = (case range of Some r \<Rightarrow> getText doc r | None \<Rightarrow> ''???'')
      in \<lparr>word = word, anchor = anchor, input = inp\<rparr>)"

text \<open>\<open>add(input)\<close>: \<open>p\<close> is the promise of the history item.\<close>

definition add :: "SymbolTreeInput \<Rightarrow> state \<Rightarrow> state" where
  "add inp s =
     (let p = next_id s;
          s1 = s\<lparr>next_id := Suc p, items := (items s)(p := Pending),
                 loading := (loading s)(p := Some inp)\<rparr>;
          key = hash inp;
          s2 = s1\<lparr>h_inputs := map_delete key (h_inputs s1)\<rparr>;
          s3 = s2\<lparr>h_inputs := map_set key p (h_inputs s2)\<rparr>
      in s3\<lparr>ctxHasHistory := Some True\<rparr>)"

text \<open>\<open>clear()\<close>.\<close>

definition clear :: "state \<Rightarrow> state" where
  "clear s = fire HistoryProvider (s\<lparr>h_inputs := [], ctxHasHistory := Some False\<rparr>)"

text \<open>\<open>get size()\<close>.\<close>

definition history_size :: "state \<Rightarrow> nat" where
  "history_size s = length (h_inputs s)"

text \<open>\<open>getChildren()\<close> of the history: the array given to \<open>Promise.all\<close>, and the
  promise it returns.\<close>

definition history_values :: "state \<Rightarrow> nat list" where
  "history_values s = rev (map snd (h_inputs s))"

definition history_getChildren :: "state \<Rightarrow> HistoryItem list promise" where
  "history_getChildren s = promise_all (map (items s) (history_values s))"

text \<open>The document of a history item opens, or fails to: the promise of the item
  settles, once.\<close>

definition opened :: "nat \<Rightarrow> TextDocument \<Rightarrow> state \<Rightarrow> state" where
  "opened p doc s =
     (case loading s p of
        None \<Rightarrow> s
      | Some inp \<Rightarrow>
          s\<lparr>loading := (loading s)(p := None),
            items := (items s)(p := Fulfilled (add_then inp doc))\<rparr>)"

definition open_failed :: "nat \<Rightarrow> error \<Rightarrow> state \<Rightarrow> state" where
  "open_failed p err s =
     (case loading s p of
        None \<Rightarrow> s
      | Some inp \<Rightarrow>
          s\<lparr>loading := (loading s)(p := None), items := (items s)(p := Rejected err)\<rparr>)"

subsection \<open>SymbolsTree\<close>

text \<open>\<open>dispose()\<close>: the view is disposed (and the emitter of input changes, which
  nothing in this file fires or listens to).\<close>

definition dispose :: "state \<Rightarrow> state" where
  "dispose s = s\<lparr>tree_disposed := True\<rparr>"

text \<open>\<open>getInput()\<close>.\<close>

definition getInput :: "state \<Rightarrow> SymbolTreeInput option" where
  "getInput s = c_input s"

text \<open>\<open>this._input !== input\<close>: comparison of references.\<close>

definition is_current :: "state \<Rightarrow> SymbolTreeInput \<Rightarrow> bool" where
  "is_current s inp = (case c_input s of None \<Rightarrow> False | Some i \<Rightarrow> ident i = ident inp)"

text \<open>\<open>this._sessionDisposable?.dispose()\<close>: the field keeps the object, which is
  spent from then on.\<close>

definition dispose_session :: "state \<Rightarrow> state" where
  "dispose_session s =
     (case c_sessionDisposable s of
        None \<Rightarrow> s
      | Some d \<Rightarrow>
          if spent d then s
          else (dispose_all (members d) s)\<lparr>c_sessionDisposable := Some (d\<lparr>spent := True\<rparr>)\<rparr>)"

text \<open>\<open>setInput(input)\<close>, up to the registration of its reactions. The record \<open>inp\<close> is
  the input object as it is at the call (\<open>s0\<close>); \<open>k\<close> is the promise
  \<open>model.then(model => model.provider)\<close> given to the delegate, which settles with the
  promise \<open>input.resolve()\<close> returned.\<close>

definition setInput :: "SymbolTreeInput \<Rightarrow> state \<Rightarrow> state" where
  "setInput inp s =
     (let s0 = s\<lparr>input_title := (input_title s)(ident inp := title inp)\<rparr>;
          s1 = add inp s0;
          s2 = s1\<lparr>ctxIsActive := Some True\<rparr>;
          s3 = s2\<lparr>ctxHasResult := Some True\<rparr>;
          s4 = s3\<lparr>focus_requests := Suc (focus_requests s3)\<rparr>;
          s5 = s4\<lparr>c_input := Some inp\<rparr>;
          s6 = dispose_session s5;
          s7 = s6\<lparr>tree_title := title inp\<rparr>;
          s8 = s7\<lparr>tree_message := None\<rparr>;
          k = next_id s8;
          s9 = s8\<lparr>next_id := Suc k, promises := (promises s8)(k := Pending),
                  pending := (pending s8)(k := Some (Session inp))\<rparr>
      in update k s9)"

text \<open>The reaction \<open>model => { if (this._input !== input) { return; } ... }\<close> of
  \<open>setInput\<close>; \<open>k\<close> is the reference of the model.\<close>

definition setInput_then ::
  "SymbolTreeInput \<Rightarrow> nat \<Rightarrow> SymbolTreeModel \<Rightarrow> state \<Rightarrow> state" where
  "setInput_then inp k model s =
     (if \<not> is_current s inp then s
      else
        (let s1 = s\<lparr>tree_title := input_title s (ident inp)\<rparr>;
             s2 = s1\<lparr>tree_message := model_message s1 k\<rparr>;
             selection = (case navigation model of
                            None \<Rightarrow> None
                          | Some nearest \<Rightarrow> nearest (uri inp) (position inp));
             s3 = (case selection of
                     None \<Rightarrow> s2
                   | Some sel \<Rightarrow>
                       if tree_visible s2 then s2\<lparr>reveals := reveals s2 @ [sel]\<rparr> else s2);
             (d, s4) = subscribe (ModelProvider (provider model)) (Refresh (ident inp) k) s3;
             listener = [d] @
               (if provider_dispose model then [DisposeProvider (provider model)] else [])
         in s4\<lparr>c_sessionDisposable := Some \<lparr>members = listener, spent = False\<rparr>\<rparr>))"

text \<open>\<open>clearInput()\<close>: \<open>k\<close> is the promise \<open>Promise.resolve(this._history)\<close>.\<close>

definition clearInput :: "state \<Rightarrow> state" where
  "clearInput s =
     (let s1 = s\<lparr>c_input := None\<rparr>;
          s2 = s1\<lparr>ctxHasResult := Some False\<rparr>;
          s3 = s2\<lparr>tree_title := ''References''\<rparr>;
          s4 = s3\<lparr>tree_message := None\<rparr>;
          k = next_id s4;
          s5 = s4\<lparr>next_id := Suc k, promises := (promises s4)(k := Fulfilled HistoryProvider),
                  pending := (pending s4)(k := Some HistoryReady)\<rparr>;
          s6 = update k s5
      in if history_size s6 = 0 then s6\<lparr>tree_message := Some ''Nothing to show''\<rparr> else s6)"

subsection \<open>Events\<close>

text \<open>The promise of a \<open>setInput\<close> call is fulfilled with a model, which has the
  message of the record at that moment: the promise given to the delegate is fulfilled
  with the model's provider, then the reaction of \<open>setInput\<close> runs, then the delegate's.
  A promise settles once.\<close>

definition resolved :: "nat \<Rightarrow> SymbolTreeModel \<Rightarrow> state \<Rightarrow> state" where
  "resolved k model s =
     (case pending s k of
        Some (Session inp) \<Rightarrow>
          (let v = ModelProvider (provider model);
               s1 = s\<lparr>pending := (pending s)(k := None),
                      promises := (promises s)(k := Fulfilled v),
                      model_message := (model_message s)(k := message model)\<rparr>;
               s2 = setInput_then inp k model s1
           in update_then k v s2)
      | _ \<Rightarrow> s)"

text \<open>The promise of a \<open>setInput\<close> call is rejected: the reaction of \<open>setInput\<close> has no
  rejection handler; the delegate's \<open>catch\<close> runs.\<close>

definition rejected :: "nat \<Rightarrow> error \<Rightarrow> state \<Rightarrow> state" where
  "rejected k err s =
     (case pending s k of
        Some (Session inp) \<Rightarrow>
          (let s1 = s\<lparr>pending := (pending s)(k := None),
                      promises := (promises s)(k := Rejected err)\<rparr>
           in update_catch k err s1)
      | _ \<Rightarrow> s)"

text \<open>The delegate's reaction on the promise of a \<open>clearInput\<close> call runs.\<close>

definition history_ready :: "nat \<Rightarrow> state \<Rightarrow> state" where
  "history_ready k s =
     (case pending s k of
        Some HistoryReady \<Rightarrow> update_then k HistoryProvider (s\<lparr>pending := (pending s)(k := None)\<rparr>)
      | _ \<Rightarrow> s)"

text \<open>What can happen to the module: a call of \<open>setInput\<close> or \<open>clearInput\<close> (the
  latter also by the command \<open>references-view.clear\<close>), the settling of the promise
  of a \<open>setInput\<close> call, the delegate's reaction after \<open>clearInput\<close>, the settling of
  the promise of a history item, a model provider firing its change event, the commands
  \<open>references-view.clearHistory\<close> and \<open>references-view.refind\<close> (on a history item,
  whose input object is passed as it is then; on anything else the command does
  nothing), the view becoming visible or hidden, \<open>dispose\<close>, and the owner of an input
  or of a model assigning its title or its message.\<close>

datatype event =
    SetInput SymbolTreeInput
  | ClearInput
  | Resolved nat SymbolTreeModel
  | RejectedWith nat error
  | HistoryIsReady nat
  | Opened nat TextDocument
  | OpenFailed nat error
  | Changed nat
  | ClearHistory
  | Refind HistoryItem
  | Visible bool
  | Dispose
  | TitleChanged nat string
  | MessageChanged nat "string option"

fun step :: "state \<Rightarrow> event \<Rightarrow> state" where
  "step s (SetInput inp) = setInput inp s"
| "step s ClearInput = clearInput s"
| "step s (Resolved k model) = resolved k model s"
| "step s (RejectedWith k err) = rejected k err s"
| "step s (HistoryIsReady k) = history_ready k s"
| "step s (Opened p doc) = opened p doc s"
| "step s (OpenFailed p err) = open_failed p err s"
| "step s (Changed p) = fire (ModelProvider p) s"
| "step s ClearHistory = clear s"
| "step s (Refind item) =
     setInput ((input item)\<lparr>title := input_title s (ident (input item))\<rparr>) s"
| "step s (Visible b) = s\<lparr>tree_visible := b\<rparr>"
| "step s Dispose = dispose s"
| "step s (TitleChanged i t) = s\<lparr>input_title := (input_title s)(i := t)\<rparr>"
| "step s (MessageChanged k m) = s\<lparr>model_message := (model_message s)(k := m)\<rparr>"

definition run :: "state \<Rightarrow> event list \<Rightarrow> state" where
  "run s es = foldl step s es"

subsection \<open>Notions used in the statements\<close>

text \<open>A promise that has been rejected.\<close>

fun is_rejected :: "'a promise \<Rightarrow> bool" where
  "is_rejected (Rejected e) = True"
| "is_rejected _ = False"

text \<open>The events that leave the history entry of a key in place: every event but
  \<open>clear()\<close> and a \<open>setInput\<close> (also by the refind command) whose input has that key (its \<open>add\<close> replaces the
  entry).\<close>

fun keeps_entry :: "string \<Rightarrow> event \<Rightarrow> bool" where
  "keeps_entry key (SetInput i) = (hash i \<noteq> key)"
| "keeps_entry key (Refind item) = (hash (input item) \<noteq> key)"
| "keeps_entry key ClearHistory = False"
| "keeps_entry key _ = True"

text \<open>The history holds, under \<open>key\<close>, the promise \<open>p\<close>, and \<open>p\<close> has been rejected.\<close>

definition poisoned :: "string \<Rightarrow> nat \<Rightarrow> error \<Rightarrow> state \<Rightarrow> bool" where
  "poisoned key p e t \<longleftrightarrow>
     (key, p) \<in> set (h_inputs t) \<and> items t p = Rejected e \<and> loading t p = None
     \<and> p < next_id t"

text \<open>The events that leave the resolution \<open>k\<close> of the input object \<open>x\<close> in flight and
  do not make that object the current input again: every event but a \<open>setInput\<close> of
  \<open>x\<close> (also by the refind command) and the settling of \<open>k\<close>.\<close>

fun leaves_stale :: "nat \<Rightarrow> nat \<Rightarrow> event \<Rightarrow> bool" where
  "leaves_stale x k (SetInput i) = (ident i \<noteq> x)"
| "leaves_stale x k (Refind item) = (ident (input item) \<noteq> x)"
| "leaves_stale x k (Resolved k' m) = (k' \<noteq> k)"
| "leaves_stale x k (RejectedWith k' e) = (k' \<noteq> k)"
| "leaves_stale x k _ = True"

text \<open>What the reactions of a resolution write: the view's title and message, the
  reveal requests, the registered listeners, and the session disposables of the
  controller and of the delegate.\<close>

definition session_effects ::
  "state \<Rightarrow> string \<times> string option \<times> nat list \<times> subscription list
     \<times> session_disposable option \<times> disposable option" where
  "session_effects s =
     (tree_title s, tree_message s, reveals s, live s, c_sessionDisposable s,
      d_sessionDispoables s)"

text \<open>Concrete inputs, models and documents for the examples: the input is the object
  \<open>i\<close> with title and hash \<open>h\<close>; the model has the provider \<open>p\<close>, which can be disposed,
  and the message \<open>ready\<close>; the document has no word at any position, and a run of
  non-whitespace characters only in line 0.\<close>

definition sample_input :: "nat \<Rightarrow> string \<Rightarrow> SymbolTreeInput" where
  "sample_input i h = \<lparr>ident = i, title = h, uri = ''file'', position = (0, 0), hash = h\<rparr>"

definition sample_model :: "nat \<Rightarrow> SymbolTreeModel" where
  "sample_model p =
     \<lparr>message = Some ''ready'', provider = p, provider_dispose = True, navigation = None\<rparr>"

definition sample_doc :: TextDocument where
  "sample_doc =
     \<lparr>getWordRangeAtPosition =
        (\<lambda>pos re. case re of
                     None \<Rightarrow> None
                   | Some _ \<Rightarrow> if fst pos = 0 then Some ((0, 0), (0, 2)) else None),
      getText = (\<lambda>r. ''=>'')\<rparr>"

subsection \<open>What each operation leaves unchanged\<close>

lemma dispose_handle_frame:
  "d_provider (dispose_handle d s) = d_provider s"
  "d_sessionDispoables (dispose_handle d s) = d_sessionDispoables s"
  "d_onDidChange (dispose_handle d s) = d_onDidChange s"
  "d_onDidChangeTreeData (dispose_handle d s) = d_onDidChangeTreeData s"
  "d_fired (dispose_handle d s) = d_fired s"
  "ctxIsActive (dispose_handle d s) = ctxIsActive s"
  "ctxHasResult (dispose_handle d s) = ctxHasResult s"
  "c_input (dispose_handle d s) = c_input s"
  "c_sessionDisposable (dispose_handle d s) = c_sessionDisposable s"
  "tree_title (dispose_handle d s) = tree_title s"
  "tree_message (dispose_handle d s) = tree_message s"
  "tree_visible (dispose_handle d s) = tree_visible s"
  "reveals (dispose_handle d s) = reveals s"
  "focus_requests (dispose_handle d s) = focus_requests s"
  "tree_disposed (dispose_handle d s) = tree_disposed s"
  "ctxHasHistory (dispose_handle d s) = ctxHasHistory s"
  "h_inputs (dispose_handle d s) = h_inputs s"
  "next_id (dispose_handle d s) = next_id s"
  "promises (dispose_handle d s) = promises s"
  "pending (dispose_handle d s) = pending s"
  "items (dispose_handle d s) = items s"
  "loading (dispose_handle d s) = loading s"
  "input_title (dispose_handle d s) = input_title s"
  "model_message (dispose_handle d s) = model_message s"
  by (cases d; simp)+

lemma dispose_all_frame:
  "d_provider (dispose_all ds s) = d_provider s"
  "d_sessionDispoables (dispose_all ds s) = d_sessionDispoables s"
  "d_onDidChange (dispose_all ds s) = d_onDidChange s"
  "d_onDidChangeTreeData (dispose_all ds s) = d_onDidChangeTreeData s"
  "d_fired (dispose_all ds s) = d_fired s"
  "ctxIsActive (dispose_all ds s) = ctxIsActive s"
  "ctxHasResult (dispose_all ds s) = ctxHasResult s"
  "c_input (dispose_all ds s) = c_input s"
  "c_sessionDisposable (dispose_all ds s) = c_sessionDisposable s"
  "tree_title (dispose_all ds s) = tree_title s"
  "tree_message (dispose_all ds s) = tree_message s"
  "tree_visible (dispose_all ds s) = tree_visible s"
  "reveals (dispose_all ds s) = reveals s"
  "focus_requests (dispose_all ds s) = focus_requests s"
  "tree_disposed (dispose_all ds s) = tree_disposed s"
  "ctxHasHistory (dispose_all ds s) = ctxHasHistory s"
  "h_inputs (dispose_all ds s) = h_inputs s"
  "next_id (dispose_all ds s) = next_id s"
  "promises (dispose_all ds s) = promises s"
  "pending (dispose_all ds s) = pending s"
  "items (dispose_all ds s) = items s"
  "loading (dispose_all ds s) = loading s"
  "input_title (dispose_all ds s) = input_title s"
  "model_message (dispose_all ds s) = model_message s"
  by (induction ds arbitrary: s; simp add: dispose_handle_frame)+

lemma dispose_session_frame:
  "d_provider (dispose_session s) = d_provider s"
  "d_sessionDispoables (dispose_session s) = d_sessionDispoables s"
  "d_onDidChange (dispose_session s) = d_onDidChange s"
  "d_onDidChangeTreeData (dispose_session s) = d_onDidChangeTreeData s"
  "d_fired (dispose_session s) = d_fired s"
  "ctxIsActive (dispose_session s) = ctxIsActive s"
  "ctxHasResult (dispose_session s) = ctxHasResult s"
  "c_input (dispose_session s) = c_input s"
  "tree_title (dispose_session s) = tree_title s"
  "tree_message (dispose_session s) = tree_message s"
  "tree_visible (dispose_session s) = tree_visible s"
  "reveals (dispose_session s) = reveals s"
  "focus_requests (dispose_session s) = focus_requests s"
  "tree_disposed (dispose_session s) = tree_disposed s"
  "ctxHasHistory (dispose_session s) = ctxHasHistory s"
  "h_inputs (dispose_session s) = h_inputs s"
  "next_id (dispose_session s) = next_id s"
  "promises (dispose_session s) = promises s"
  "pending (dispose_session s) = pending s"
  "items (dispose_session s) = items s"
  "loading (dispose_session s) = loading s"
  "input_title (dispose_session s) = input_title s"
  "model_message (dispose_session s) = model_message s"
  by (simp_all add: dispose_session_def dispose_all_frame split: option.splits)

lemma run_listener_frame:
  "d_provider (run_listener l s) = d_provider s"
  "d_sessionDispoables (run_listener l s) = d_sessionDispoables s"
  "d_onDidChange (run_listener l s) = d_onDidChange s"
  "d_onDidChangeTreeData (run_listener l s) = d_onDidChangeTreeData s"
  "ctxIsActive (run_listener l s) = ctxIsActive s"
  "ctxHasResult (run_listener l s) = ctxHasResult s"
  "c_input (run_listener l s) = c_input s"
  "c_sessionDisposable (run_listener l s) = c_sessionDisposable s"
  "tree_visible (run_listener l s) = tree_visible s"
  "reveals (run_listener l s) = reveals s"
  "focus_requests (run_listener l s) = focus_requests s"
  "tree_disposed (run_listener l s) = tree_disposed s"
  "ctxHasHistory (run_listener l s) = ctxHasHistory s"
  "h_inputs (run_listener l s) = h_inputs s"
  "next_id (run_listener l s) = next_id s"
  "promises (run_listener l s) = promises s"
  "pending (run_listener l s) = pending s"
  "items (run_listener l s) = items s"
  "loading (run_listener l s) = loading s"
  "live (run_listener l s) = live s"
  "disposed (run_listener l s) = disposed s"
  "input_title (run_listener l s) = input_title s"
  "model_message (run_listener l s) = model_message s"
  by (cases l; simp)+

lemma run_listeners_frame:
  "d_provider (run_listeners xs s) = d_provider s"
  "d_sessionDispoables (run_listeners xs s) = d_sessionDispoables s"
  "d_onDidChange (run_listeners xs s) = d_onDidChange s"
  "d_onDidChangeTreeData (run_listeners xs s) = d_onDidChangeTreeData s"
  "ctxIsActive (run_listeners xs s) = ctxIsActive s"
  "ctxHasResult (run_listeners xs s) = ctxHasResult s"
  "c_input (run_listeners xs s) = c_input s"
  "c_sessionDisposable (run_listeners xs s) = c_sessionDisposable s"
  "tree_visible (run_listeners xs s) = tree_visible s"
  "reveals (run_listeners xs s) = reveals s"
  "focus_requests (run_listeners xs s) = focus_requests s"
  "tree_disposed (run_listeners xs s) = tree_disposed s"
  "ctxHasHistory (run_listeners xs s) = ctxHasHistory s"
  "h_inputs (run_listeners xs s) = h_inputs s"
  "next_id (run_listeners xs s) = next_id s"
  "promises (run_listeners xs s) = promises s"
  "pending (run_listeners xs s) = pending s"
  "items (run_listeners xs s) = items s"
  "loading (run_listeners xs s) = loading s"
  "live (run_listeners xs s) = live s"
  "disposed (run_listeners xs s) = disposed s"
  "input_title (run_listeners xs s) = input_title s"
  "model_message (run_listeners xs s) = model_message s"
  by (induction xs arbitrary: s; simp add: run_listener_frame)+

lemma fire_frame:
  "d_provider (fire src s) = d_provider s"
  "d_sessionDispoables (fire src s) = d_sessionDispoables s"
  "d_onDidChange (fire src s) = d_onDidChange s"
  "d_onDidChangeTreeData (fire src s) = d_onDidChangeTreeData s"
  "ctxIsActive (fire src s) = ctxIsActive s"
  "ctxHasResult (fire src s) = ctxHasResult s"
  "c_input (fire src s) = c_input s"
  "c_sessionDisposable (fire src s) = c_sessionDisposable s"
  "tree_visible (fire src s) = tree_visible s"
  "reveals (fire src s) = reveals s"
  "focus_requests (fire src s) = focus_requests s"
  "tree_disposed (fire src s) = tree_disposed s"
  "ctxHasHistory (fire src s) = ctxHasHistory s"
  "h_inputs (fire src s) = h_inputs s"
  "next_id (fire src s) = next_id s"
  "promises (fire src s) = promises s"
  "pending (fire src s) = pending s"
  "items (fire src s) = items s"
  "loading (fire src s) = loading s"
  "live (fire src s) = live s"
  "disposed (fire src s) = disposed s"
  "input_title (fire src s) = input_title s"
  "model_message (fire src s) = model_message s"
  by (simp_all add: fire_def run_listeners_frame)

lemma update_frame:
  "d_provider (update p s) = Some p"
  "d_sessionDispoables (update p s) = None"
  "d_fired (update p s) = Suc (d_fired s)"
  "d_onDidChange (update p s) = d_onDidChange s"
  "d_onDidChangeTreeData (update p s) = d_onDidChangeTreeData s"
  "ctxIsActive (update p s) = ctxIsActive s"
  "ctxHasResult (update p s) = ctxHasResult s"
  "c_input (update p s) = c_input s"
  "c_sessionDisposable (update p s) = c_sessionDisposable s"
  "tree_title (update p s) = tree_title s"
  "tree_message (update p s) = tree_message s"
  "tree_visible (update p s) = tree_visible s"
  "reveals (update p s) = reveals s"
  "focus_requests (update p s) = focus_requests s"
  "tree_disposed (update p s) = tree_disposed s"
  "ctxHasHistory (update p s) = ctxHasHistory s"
  "h_inputs (update p s) = h_inputs s"
  "next_id (update p s) = next_id s"
  "promises (update p s) = promises s"
  "pending (update p s) = pending s"
  "items (update p s) = items s"
  "loading (update p s) = loading s"
  "input_title (update p s) = input_title s"
  "model_message (update p s) = model_message s"
  by (simp_all add: update_def Let_def dispose_handle_frame split: option.splits)

lemma map_set_after_delete:
  "map_set k v (map_delete k m) = map_delete k m @ [(k, v)]"
  by (auto simp: map_set_def map_delete_def)

lemma add_frame:
  "h_inputs (add inp s) = map_delete (hash inp) (h_inputs s) @ [(hash inp, next_id s)]"
  "next_id (add inp s) = Suc (next_id s)"
  "items (add inp s) = (items s)(next_id s := Pending)"
  "loading (add inp s) = (loading s)(next_id s := Some inp)"
  "ctxHasHistory (add inp s) = Some True"
  "d_provider (add inp s) = d_provider s"
  "d_sessionDispoables (add inp s) = d_sessionDispoables s"
  "d_onDidChange (add inp s) = d_onDidChange s"
  "d_onDidChangeTreeData (add inp s) = d_onDidChangeTreeData s"
  "d_fired (add inp s) = d_fired s"
  "ctxIsActive (add inp s) = ctxIsActive s"
  "ctxHasResult (add inp s) = ctxHasResult s"
  "c_input (add inp s) = c_input s"
  "c_sessionDisposable (add inp s) = c_sessionDisposable s"
  "tree_title (add inp s) = tree_title s"
  "tree_message (add inp s) = tree_message s"
  "tree_visible (add inp s) = tree_visible s"
  "reveals (add inp s) = reveals s"
  "focus_requests (add inp s) = focus_requests s"
  "tree_disposed (add inp s) = tree_disposed s"
  "promises (add inp s) = promises s"
  "pending (add inp s) = pending s"
  "live (add inp s) = live s"
  "disposed (add inp s) = disposed s"
  "input_title (add inp s) = input_title s"
  "model_message (add inp s) = model_message s"
  by (simp_all add: add_def Let_def map_set_after_delete)

lemmas frames = dispose_handle_frame dispose_all_frame dispose_session_frame
  run_listener_frame run_listeners_frame fire_frame update_frame add_frame

lemmas ops = setInput_def clearInput_def resolved_def rejected_def history_ready_def
  opened_def open_failed_def clear_def setInput_then_def update_then_def
  update_catch_def subscribe_def is_current_def dispose_def

subsection \<open>The delegate\<close>

lemma assertProvider_fails_iff:
  "assertProvider s = Inl MISSING_provider \<longleftrightarrow> d_provider s = None"
  by (simp add: assertProvider_def)

lemma step_event_identity:
  "d_onDidChangeTreeData (step s ev) = d_onDidChangeTreeData s
   \<and> d_onDidChange (step s ev) = d_onDidChange s"
  by (cases ev)
     (simp_all add: ops frames Let_def split: option.splits reaction.splits prod.splits)

lemma run_event_identity:
  "d_onDidChangeTreeData (run s es) = d_onDidChangeTreeData s
   \<and> d_onDidChange (run s es) = d_onDidChange s"
  unfolding run_def
  by (induction es arbitrary: s) (simp_all add: step_event_identity)

text \<open>
  C3. The event \<open>onDidChangeTreeData\<close> that the delegate shows to the view, and the
  emitter behind it, are the same objects after \<open>update\<close>, after any number of \<open>update\<close>
  calls, and after any sequence of events of the module; \<open>update\<close> only swaps the
  provider behind them.
\<close>

theorem delegate_identity_stable:
  "d_onDidChangeTreeData (update p s) = d_onDidChangeTreeData s
   \<and> d_onDidChange (update p s) = d_onDidChange s
   \<and> d_provider (update p s) = Some p
   \<and> d_onDidChangeTreeData (fold update ps s) = d_onDidChangeTreeData s
   \<and> d_onDidChangeTreeData (run s es) = d_onDidChangeTreeData s
   \<and> d_onDidChange (run s es) = d_onDidChange s"
proof -
  have "d_onDidChangeTreeData (fold update ps s) = d_onDidChangeTreeData s"
    by (induction ps arbitrary: s) (simp_all add: update_frame)
  then show ?thesis
    by (simp add: update_frame run_event_identity)
qed

text \<open>
  C8. After \<open>update(P1)\<close> and \<open>update(P2)\<close>, the rejection handler of \<open>P1\<close> clears the
  stored provider whether \<open>P2\<close> is still pending or has been fulfilled (and subscribed
  to), and from then on \<open>_assertProvider\<close> throws and the three accessors are rejected
  with the missing-provider error. The success handler of \<open>P1\<close>, which compares
  \<open>this.provider\<close> with its promise, does nothing in the same place.
\<close>

theorem stale_rejection_clears_provider:
  assumes "p1 \<noteq> p2"
  shows "(let s2 = update p2 (update p1 s);
              pendingP2 = update_catch p1 e s2;
              succeededP2 = update_catch p1 e (update_then p2 v s2)
          in d_provider s2 = Some p2
           \<and> update_then p1 v s2 = s2
           \<and> d_provider pendingP2 = None \<and> d_provider succeededP2 = None
           \<and> assertProvider pendingP2 = Inl MISSING_provider
           \<and> assertProvider succeededP2 = Inl MISSING_provider
           \<and> getTreeItem pendingP2 x = Rejected MISSING_provider
           \<and> getChildren pendingP2 y = Rejected MISSING_provider
           \<and> getParent pendingP2 x = Rejected MISSING_provider
           \<and> getTreeItem succeededP2 x = Rejected MISSING_provider
           \<and> getChildren succeededP2 y = Rejected MISSING_provider
           \<and> getParent succeededP2 x = Rejected MISSING_provider)"
proof -
  let ?s2 = "update p2 (update p1 s)"
  have a: "d_provider ?s2 = Some p2"
    by (simp add: update_frame)
  with assms have b: "update_then p1 v ?s2 = ?s2"
    by (simp add: update_then_def)
  have c: "d_provider (update_catch p1 e t) = None" for t
    by (simp add: update_catch_def)
  have d: "assertProvider t = Inl MISSING_provider"
    "getTreeItem t x = Rejected MISSING_provider"
    "getChildren t y = Rejected MISSING_provider"
    "getParent t x = Rejected MISSING_provider" if "d_provider t = None" for t
    using that
    by (simp_all add: getTreeItem_def getChildren_def getParent_def forward_def
        assertProvider_def)
  from a b c d [OF c] show ?thesis
    unfolding Let_def by blast
qed

text \<open>The delegate is updated with the promises 1 and 3, and 1 is rejected.\<close>

theorem stale_rejection_clears_provider_witness:
  "(1::nat) \<noteq> 3
   \<and> d_provider (update 3 (update 1 init)) = Some 3
   \<and> update_then 1 (ModelProvider 7) (update 3 (update 1 init)) = update 3 (update 1 init)
   \<and> getChildren (update_catch 1 (Failure ''late'') (update 3 (update 1 init))) None
       = Rejected MISSING_provider
   \<and> getChildren (update_catch 1 (Failure ''late'')
        (update_then 3 (ModelProvider 8) (update 3 (update 1 init)))) None
       = Rejected MISSING_provider"
proof -
  have h: "(1::nat) \<noteq> 3"
    by simp
  from stale_rejection_clears_provider [OF h, of init "Failure ''late''" "ModelProvider 8" 0 None,
      unfolded Let_def]
  have "getChildren (update_catch 1 (Failure ''late'') (update 3 (update 1 init))) None
       = Rejected MISSING_provider"
    and "getChildren (update_catch 1 (Failure ''late'')
        (update_then 3 (ModelProvider 8) (update 3 (update 1 init)))) None
       = Rejected MISSING_provider"
    and "d_provider (update 3 (update 1 init)) = Some 3"
    by blast+
  moreover from stale_rejection_clears_provider [OF h, of init "Failure ''late''"
      "ModelProvider 7" 0 None, unfolded Let_def]
  have "update_then 1 (ModelProvider 7) (update 3 (update 1 init)) = update 3 (update 1 init)"
    by blast
  ultimately show ?thesis
    using h by blast
qed

text \<open>
  C4. \<open>setInput(a)\<close>, then \<open>setInput(b)\<close>; the resolution of b is fulfilled, then the
  resolution of a is rejected. \<open>update\<close> has been called and the promise of its most
  recent call is fulfilled, with the provider of the model of b; but no provider is
  stored, and the three accessors are rejected with the missing-provider error instead
  of forwarding to that provider.
\<close>

theorem accessors_fail_after_stale_rejection:
  "(let s = run init
              [SetInput (sample_input 0 ''a''), SetInput (sample_input 1 ''b''),
               Resolved 3 (sample_model 8), RejectedWith 1 (Failure ''late'')]
    in getInput s = Some (sample_input 1 ''b'')
     \<and> promises s 3 = Fulfilled (ModelProvider 8)
     \<and> d_provider s = None
     \<and> getTreeItem s 0 = Rejected MISSING_provider
     \<and> getChildren s None = Rejected MISSING_provider
     \<and> getParent s 0 = Rejected MISSING_provider)
   \<and> (let s = run init
              [SetInput (sample_input 0 ''a''), SetInput (sample_input 1 ''b''),
               Resolved 3 (sample_model 8)]
    in d_provider s = Some 3
     \<and> getChildren s None = Fulfilled (Forward (ModelProvider 8) (GetChildren None)))"
  by (simp add: run_def ops frames Let_def init_def sample_input_def sample_model_def
      getInput_def getTreeItem_def getChildren_def getParent_def forward_def
      assertProvider_def)

subsection \<open>The history\<close>

text \<open>
  C7. The word of the history item that \<open>add\<close> creates is the text of the default word
  range at the input's position if there is one, else the text of the non-whitespace
  run at that position if there is one, else the placeholder; and that item is what the
  promise \<open>add\<close> stored under the input's hash is fulfilled with when the document
  opens.
\<close>

theorem add_word_fallback:
  "word (add_then inp doc) =
     (case getWordRangeAtPosition doc (position inp) None of
        Some r \<Rightarrow> getText doc r
      | None \<Rightarrow>
          (case getWordRangeAtPosition doc (position inp) (Some NonWhitespaceRun) of
             Some r \<Rightarrow> getText doc r
           | None \<Rightarrow> ''???''))
   \<and> input (add_then inp doc) = inp
   \<and> items (opened (next_id s) doc (add inp s)) (next_id s) = Fulfilled (add_then inp doc)
   \<and> (hash inp, next_id s) \<in> set (h_inputs (opened (next_id s) doc (add inp s)))"
proof -
  have w: "word (add_then inp doc) =
     (case getWordRangeAtPosition doc (position inp) None of
        Some r \<Rightarrow> getText doc r
      | None \<Rightarrow>
          (case getWordRangeAtPosition doc (position inp) (Some NonWhitespaceRun) of
             Some r \<Rightarrow> getText doc r
           | None \<Rightarrow> ''???''))"
    by (simp add: add_then_def nullish_def Let_def split: option.splits)
  have i: "input (add_then inp doc) = inp"
    by (simp add: add_then_def Let_def)
  have p: "items (opened (next_id s) doc (add inp s)) (next_id s) = Fulfilled (add_then inp doc)"
    by (simp add: opened_def add_frame)
  have h: "(hash inp, next_id s) \<in> set (h_inputs (opened (next_id s) doc (add inp s)))"
    by (simp add: opened_def add_frame)
  from w i p h show ?thesis by blast
qed

text \<open>The second and the third link of the chain, on a document without words.\<close>

lemma add_word_examples:
  "word (add_then (sample_input 0 ''a'') sample_doc) = ''=>''"
  "word (add_then ((sample_input 0 ''a'')\<lparr>position := (1, 0)\<rparr>) sample_doc) = ''???''"
  by (simp_all add: add_then_def nullish_def sample_doc_def sample_input_def)

lemma keys_map_delete: "map fst (map_delete k m) = filter (\<lambda>x. x \<noteq> k) (map fst m)"
  by (induction m) (simp_all add: map_delete_def)

lemma keys_add:
  "map fst (h_inputs (add inp s)) =
     filter (\<lambda>x. x \<noteq> hash inp) (map fst (h_inputs s)) @ [hash inp]"
  by (simp add: add_frame keys_map_delete)

lemma keys_fold_add:
  "map fst (h_inputs (fold add inps s)) =
     filter (\<lambda>k. k \<notin> set (map hash inps)) (map fst (h_inputs s)) @ remdups (map hash inps)"
proof (induction inps arbitrary: s)
  case Nil
  then show ?case by simp
next
  case (Cons i inps)
  have "filter (\<lambda>k. k \<notin> set (map hash inps))
          (filter (\<lambda>x. x \<noteq> hash i) (map fst (h_inputs s)))
        = filter (\<lambda>k. k \<notin> set (map hash (i # inps))) (map fst (h_inputs s))"
    by (auto intro: filter_cong)
  then show ?case
    using Cons.IH [of "add i s"] by (auto simp: keys_add)
qed

lemma step_distinct_keys:
  "distinct (map fst (h_inputs s)) \<Longrightarrow> distinct (map fst (h_inputs (step s ev)))"
  by (cases ev)
     (auto simp: ops frames Let_def keys_map_delete
           split: option.splits reaction.splits prod.splits)

lemma run_distinct_keys:
  "distinct (map fst (h_inputs s)) \<Longrightarrow> distinct (map fst (h_inputs (run s es)))"
  unfolding run_def
  by (induction es arbitrary: s) (simp_all add: step_distinct_keys)

text \<open>
  C2. \<open>add\<close> removes the entry of the input's hash and appends the new promise as
  the last entry. Starting from a history with one entry per key, any sequence of \<open>add\<close>
  calls, and any sequence of events of the module, leaves one entry per key; read from the newest entry to the oldest, the keys are the
  hashes added, each at the place of its last \<open>add\<close>, followed by the old keys that
  were not added again; \<open>getChildren\<close> is \<open>Promise.all\<close> over the promises of the
  entries in that order, and \<open>size\<close> counts each key once.
\<close>

theorem history_dedup_mru:
  assumes "distinct (map fst (h_inputs s))"
  shows "h_inputs (add inp s) = map_delete (hash inp) (h_inputs s) @ [(hash inp, next_id s)]
    \<and> distinct (map fst (h_inputs (fold add inps s)))
    \<and> distinct (map fst (h_inputs (run s es)))
    \<and> map fst (rev (h_inputs (fold add inps s))) =
        rev (remdups (map hash inps)) @
        rev (filter (\<lambda>k. k \<notin> set (map hash inps)) (map fst (h_inputs s)))
    \<and> history_values (fold add inps s) = map snd (rev (h_inputs (fold add inps s)))
    \<and> history_getChildren (fold add inps s) =
        promise_all (map (items (fold add inps s)) (map snd (rev (h_inputs (fold add inps s)))))
    \<and> history_size (fold add inps s) =
        length (remdups (map hash inps)) +
        length (filter (\<lambda>k. k \<notin> set (map hash inps)) (map fst (h_inputs s)))"
proof -
  let ?h = "fold add inps s"
  have k: "map fst (h_inputs ?h) =
        filter (\<lambda>k. k \<notin> set (map hash inps)) (map fst (h_inputs s)) @ remdups (map hash inps)"
    by (rule keys_fold_add)
  have d: "distinct (map fst (h_inputs ?h))"
    unfolding k using assms by auto
  have r: "map fst (rev (h_inputs ?h)) =
        rev (remdups (map hash inps)) @
        rev (filter (\<lambda>k. k \<notin> set (map hash inps)) (map fst (h_inputs s)))"
    using arg_cong [OF k, of rev] by (simp add: rev_map)
  have v: "history_values ?h = map snd (rev (h_inputs ?h))"
    by (simp add: history_values_def rev_map)
  have c: "history_getChildren ?h = promise_all (map (items ?h) (map snd (rev (h_inputs ?h))))"
    by (simp add: history_getChildren_def v)
  have "length (h_inputs ?h) = length (map fst (h_inputs ?h))"
    by simp
  then have n: "history_size ?h =
        length (remdups (map hash inps)) +
        length (filter (\<lambda>k. k \<notin> set (map hash inps)) (map fst (h_inputs s)))"
    unfolding k history_size_def by simp
  have a: "h_inputs (add inp s) = map_delete (hash inp) (h_inputs s) @ [(hash inp, next_id s)]"
    by (simp add: add_frame)
  from a d r v c n run_distinct_keys [OF assms, of es] show ?thesis by blast
qed

text \<open>The hashes a, b, a, c added to the empty history: the order is c, a, b and the
  size is 3.\<close>

theorem history_dedup_mru_witness:
  "distinct (map fst (h_inputs init))
   \<and> map fst (rev (h_inputs (fold add
        [sample_input 0 ''a'', sample_input 1 ''b'', sample_input 2 ''a'', sample_input 3 ''c'']
        init))) = [''c'', ''a'', ''b'']
   \<and> history_size (fold add
        [sample_input 0 ''a'', sample_input 1 ''b'', sample_input 2 ''a'', sample_input 3 ''c'']
        init) = 3"
proof -
  have h: "distinct (map fst (h_inputs init))"
    by (simp add: init_def)
  have e: "h_inputs init = []"
    by (simp add: init_def)
  show ?thesis
    using h e history_dedup_mru [OF h, where inps =
      "[sample_input 0 ''a'', sample_input 1 ''b'', sample_input 2 ''a'', sample_input 3 ''c'']"]
    by (simp add: sample_input_def)
qed

lemma promise_all_rejected:
  "Rejected e \<in> set ps \<Longrightarrow> is_rejected (promise_all ps)"
proof (induction ps)
  case Nil
  then show ?case by simp
next
  case (Cons p ps)
  show ?case
  proof (cases p)
    case Pending
    with Cons show ?thesis by (cases "promise_all ps") auto
  next
    case (Fulfilled v)
    with Cons show ?thesis by (cases "promise_all ps") auto
  next
    case (Rejected e')
    then show ?thesis by simp
  qed
qed

lemma getChildren_rejected:
  assumes "(key, p) \<in> set (h_inputs t)" and "items t p = Rejected e"
  shows "is_rejected (history_getChildren t)"
proof -
  from assms(1) have "p \<in> set (history_values t)"
    by (force simp: history_values_def)
  then have "Rejected e \<in> set (map (items t) (history_values t))"
    using assms(2) by force
  then show ?thesis
    unfolding history_getChildren_def by (rule promise_all_rejected)
qed

lemma poisoned_step:
  "poisoned key p e t \<Longrightarrow> keeps_entry key ev \<Longrightarrow> poisoned key p e (step t ev)"
  unfolding poisoned_def
  by (cases ev)
     (auto simp: ops frames Let_def map_delete_def
           split: option.splits reaction.splits prod.splits if_splits)

lemma poisoned_run:
  "poisoned key p e t \<Longrightarrow> list_all (keeps_entry key) es \<Longrightarrow> poisoned key p e (run t es)"
  unfolding run_def
  by (induction es arbitrary: t) (simp_all add: poisoned_step)

text \<open>
  C9. When the promise that \<open>add(input)\<close> stored is rejected, the entry stays in the map
  and \<open>size\<close> still counts it, and \<open>getChildren\<close> of the history is rejected, then and
  after every sequence of events that neither clears the history nor adds an input of
  the same hash.
\<close>

theorem rejected_entry_poisons_listing:
  assumes "list_all (keeps_entry (hash inp)) es"
  shows "(let p = next_id s; s1 = add inp s; s2 = open_failed p e s1; t = run s2 es
          in items s2 p = Rejected e
           \<and> (hash inp, p) \<in> set (h_inputs s2)
           \<and> history_size s2 = history_size s1
           \<and> is_rejected (history_getChildren s2)
           \<and> (hash inp, p) \<in> set (h_inputs t)
           \<and> items t p = Rejected e
           \<and> is_rejected (history_getChildren t))"
proof -
  let ?p = "next_id s"
  let ?s2 = "open_failed ?p e (add inp s)"
  have a: "poisoned (hash inp) ?p e ?s2"
    by (simp add: poisoned_def open_failed_def add_frame)
  have b: "poisoned (hash inp) ?p e (run ?s2 es)"
    using a assms by (rule poisoned_run)
  have c: "history_size ?s2 = history_size (add inp s)"
    by (simp add: history_size_def open_failed_def add_frame)
  from a have "is_rejected (history_getChildren ?s2)"
    unfolding poisoned_def by (blast intro: getChildren_rejected)
  moreover from b have "is_rejected (history_getChildren (run ?s2 es))"
    unfolding poisoned_def by (blast intro: getChildren_rejected)
  ultimately show ?thesis
    using a b c unfolding poisoned_def Let_def by blast
qed

text \<open>The entry a fails to open; b is searched and opens, and the input is cleared: the
  listing is rejected all the same.\<close>

theorem rejected_entry_poisons_listing_witness:
  "list_all (keeps_entry (hash (sample_input 0 ''a'')))
     [SetInput (sample_input 1 ''b''), Opened 1 sample_doc, ClearInput]
   \<and> is_rejected (history_getChildren
        (run (open_failed 0 (Failure ''gone'') (add (sample_input 0 ''a'') init))
           [SetInput (sample_input 1 ''b''), Opened 1 sample_doc, ClearInput]))"
proof -
  have h: "list_all (keeps_entry (hash (sample_input 0 ''a'')))
     [SetInput (sample_input 1 ''b''), Opened 1 sample_doc, ClearInput]"
    by (simp add: sample_input_def)
  have n: "next_id init = 0"
    by (simp add: init_def)
  show ?thesis
    using h rejected_entry_poisons_listing [OF h, of init "Failure ''gone''"]
    by (simp add: Let_def n)
qed

subsection \<open>The controller\<close>

text \<open>
  C6. After \<open>clearInput\<close> there is no current input, the hasResult flag is false, the
  title is the default label, the delegate's provider is a promise fulfilled with the
  history store (so that the accessors forward to it), and the message is the
  empty-state string if the history is empty and unset otherwise.
\<close>

theorem clearInput_postconditions:
  "getInput (clearInput s) = None
   \<and> ctxHasResult (clearInput s) = Some False
   \<and> tree_title (clearInput s) = ''References''
   \<and> d_provider (clearInput s) = Some (next_id s)
   \<and> promises (clearInput s) (next_id s) = Fulfilled HistoryProvider
   \<and> getChildren (clearInput s) parent = Fulfilled (Forward HistoryProvider (GetChildren parent))
   \<and> tree_message (clearInput s) =
       (if history_size s = 0 then Some ''Nothing to show'' else None)"
  by (simp add: clearInput_def Let_def getInput_def update_frame history_size_def
      getChildren_def forward_def assertProvider_def)

text \<open>
  C5. \<open>setInput(a)\<close>, the resolution of a is fulfilled, then \<open>clearInput()\<close>. The session
  of a holds the controller's listener (subscription 2) and the provider 7, which can be
  disposed. \<open>clearInput\<close> disposes neither: the listener stays registered and the
  provider is not disposed, so that a change event of the provider writes the title and
  the message of a back to the cleared view. A \<open>setInput(b)\<close> in the place of
  \<open>clearInput()\<close> removes the listener and disposes the provider.
\<close>

theorem clearInput_keeps_session_alive:
  "(let s = run init [SetInput (sample_input 0 ''a''), Resolved 1 (sample_model 7)];
        t = clearInput s;
        u = setInput (sample_input 1 ''b'') s
    in c_sessionDisposable s =
         Some \<lparr>members = [Unsubscribe 2, DisposeProvider 7], spent = False\<rparr>
     \<and> map sub_id (live s) = [2, 3]
     \<and> c_sessionDisposable t =
         Some \<lparr>members = [Unsubscribe 2, DisposeProvider 7], spent = False\<rparr>
     \<and> live t = [\<lparr>sub_id = 2, source = ModelProvider 7, action = Refresh 0 1\<rparr>]
     \<and> input_title t 0 = ''a'' \<and> model_message t 1 = Some ''ready''
     \<and> disposed t = []
     \<and> getInput t = None \<and> tree_title t = ''References''
     \<and> tree_title (step t (Changed 7)) = ''a''
     \<and> tree_message (step t (Changed 7)) = Some ''ready''
     \<and> live u = [] \<and> disposed u = [7])"
  by (simp add: run_def ops frames Let_def init_def sample_input_def sample_model_def
      getInput_def fire_def update_def history_size_def dispose_session_def)

lemma step_isActive:
  "ctxIsActive (step s ev) =
     (case ev of SetInput i \<Rightarrow> Some True | Refind item \<Rightarrow> Some True | _ \<Rightarrow> ctxIsActive s)"
  by (cases ev)
     (simp_all add: ops frames Let_def split: option.splits reaction.splits prod.splits)

lemma run_isActive_kept:
  "ctxIsActive s = Some True \<Longrightarrow> ctxIsActive (run s es) = Some True"
  unfolding run_def
  by (induction es arbitrary: s) (simp_all add: step_isActive split: event.splits)

lemma run_isActive_never_false:
  "ctxIsActive s \<noteq> Some False \<Longrightarrow> ctxIsActive (run s es) \<noteq> Some False"
  unfolding run_def
  by (induction es arbitrary: s) (simp_all add: step_isActive split: event.splits)

text \<open>
  C10. \<open>setInput\<close> sets the isActive flag, \<open>clearInput\<close> leaves it as it is, it is still
  set after any sequence of events that follows a \<open>setInput\<close>, and no sequence of events
  from the initial state makes it false.
\<close>

theorem isActive_never_reset:
  "ctxIsActive (setInput inp s) = Some True
   \<and> ctxIsActive (clearInput s) = ctxIsActive s
   \<and> ctxIsActive (run (setInput inp s) es) = Some True
   \<and> ctxIsActive (run init es) \<noteq> Some False"
proof -
  have a: "ctxIsActive (setInput inp s) = Some True"
    using step_isActive [of s "SetInput inp"] by simp
  have b: "ctxIsActive (clearInput s) = ctxIsActive s"
    using step_isActive [of s ClearInput] by simp
  have c: "ctxIsActive init \<noteq> Some False"
    by (simp add: init_def)
  show ?thesis
    using a b run_isActive_kept [OF a] run_isActive_never_false [OF c] by simp
qed

lemma setInput_facts:
  "pending (setInput inp s) = (pending s)(Suc (next_id s) := Some (Session inp))"
  "c_input (setInput inp s) = Some inp"
  "d_provider (setInput inp s) = Some (Suc (next_id s))"
  "tree_title (setInput inp s) = title inp"
  "tree_message (setInput inp s) = None"
  "next_id (setInput inp s) = Suc (Suc (next_id s))"
  "tree_visible (setInput inp s) = tree_visible s"
  "input_title (setInput inp s) = (input_title s)(ident inp := title inp)"
  by (simp_all add: setInput_def Let_def frames split: option.splits)

lemma stale_resolved:
  assumes "pending t k = Some (Session X)" and "\<not> is_current t X" and "d_provider t \<noteq> Some k"
  shows "resolved k m t =
    t\<lparr>pending := (pending t)(k := None),
      promises := (promises t)(k := Fulfilled (ModelProvider (provider m))),
      model_message := (model_message t)(k := message m)\<rparr>"
  using assms by (simp add: resolved_def setInput_then_def update_then_def is_current_def Let_def)

lemma stale_rejected:
  assumes "pending t k = Some (Session X)"
  shows "rejected k e t =
    t\<lparr>pending := (pending t)(k := None), promises := (promises t)(k := Rejected e),
      d_provider := None\<rparr>"
  using assms by (simp add: rejected_def update_catch_def Let_def)

lemma stale_session_effects:
  assumes "pending t k = Some (Session X)" and "\<not> is_current t X" and "d_provider t \<noteq> Some k"
  shows "session_effects (resolved k m t) = session_effects t"
    and "session_effects (rejected k e t) = session_effects t"
  using assms by (simp_all add: stale_resolved stale_rejected session_effects_def)

lemma current_resolved:
  assumes "pending t k = Some (Session Y)" and "c_input t = Some Y"
  shows "tree_title (resolved k m t) = input_title t (ident Y)"
    and "tree_message (resolved k m t) = message m"
    and "c_input (resolved k m t) = Some Y"
    and "pending (resolved k m t) = (pending t)(k := None)"
    and "d_provider (resolved k m t) = d_provider t"
  using assms
  by (simp_all add: resolved_def setInput_then_def update_then_def is_current_def
      subscribe_def Let_def split: option.splits prod.splits)

lemma step_allocated:
  assumes "\<forall>k. next_id s \<le> k \<longrightarrow> pending s k = None"
  shows "\<forall>k. next_id (step s ev) \<le> k \<longrightarrow> pending (step s ev) k = None"
  using assms
  by (cases ev)
     (auto simp: ops frames Let_def split: option.splits reaction.splits prod.splits)

lemma run_allocated:
  assumes "\<forall>k. next_id s \<le> k \<longrightarrow> pending s k = None"
  shows "\<forall>k. next_id (run s es) \<le> k \<longrightarrow> pending (run s es) k = None"
  using assms unfolding run_def
proof (induction es arbitrary: s)
  case Nil
  then show ?case by simp
next
  case (Cons ev es)
  from step_allocated [OF Cons.prems] Cons.IH [of "step s ev"]
  show ?case by simp
qed

lemma reachable_allocated:
  assumes "pending (run init es) k = Some r"
  shows "k < next_id (run init es)"
proof -
  have "\<forall>k. next_id init \<le> k \<longrightarrow> pending init k = None"
    by (simp add: init_def)
  from run_allocated [OF this, of es] assms show ?thesis
    by (metis not_le option.distinct(1))
qed

lemma stale_step:
  assumes "pending t k = Some (Session X)" and "\<not> is_current t X"
    and "d_provider t \<noteq> Some k" and "k < next_id t"
    and "leaves_stale (ident X) k ev"
  shows "pending (step t ev) k = Some (Session X) \<and> \<not> is_current (step t ev) X
    \<and> d_provider (step t ev) \<noteq> Some k \<and> k < next_id (step t ev)"
  using assms
  by (cases ev)
     (auto simp: ops frames Let_def split: option.splits reaction.splits prod.splits)

lemma stale_run:
  assumes "pending t k = Some (Session X)" and "\<not> is_current t X"
    and "d_provider t \<noteq> Some k" and "k < next_id t"
    and "list_all (leaves_stale (ident X) k) es"
  shows "pending (run t es) k = Some (Session X) \<and> \<not> is_current (run t es) X
    \<and> d_provider (run t es) \<noteq> Some k \<and> k < next_id (run t es)"
  using assms unfolding run_def
proof (induction es arbitrary: t)
  case Nil
  then show ?case by simp
next
  case (Cons ev es)
  from Cons.prems have "leaves_stale (ident X) k ev" and "list_all (leaves_stale (ident X) k) es"
    by simp_all
  with stale_step [OF Cons.prems(1-4)] Cons.IH [of "step t ev"]
  show ?case by simp
qed

text \<open>
  C1, as amended. Let the resolution \<open>kX\<close> of an input \<open>X\<close> be in flight, in any state the
  module can reach, when \<open>setInput(Y)\<close> is called with an input \<open>Y\<close> that is another
  object than \<open>X\<close> (the guard compares references). Then \<open>Y\<close> is the current
  input and the view shows the title of \<open>Y\<close> and no message. When the resolution of \<open>X\<close>
  settles afterwards, fulfilled or rejected, it changes neither the title nor the
  message nor the reveal requests nor the listeners nor the session disposables:
  whether it settles at once, or after the resolution \<open>kY\<close> of \<open>Y\<close> (the view then shows
  the title of \<open>Y\<close> and the message of the model of \<open>Y\<close>), or after any later events
  that do not set \<open>X\<close> again.
\<close>

theorem setInput_race_guard:
  assumes "pending (run init es) kX = Some (Session X)"
    and "ident X \<noteq> ident Y"
    and "list_all (leaves_stale (ident X) kX) later"
  shows "(let s = run init es; s2 = setInput Y s; kY = Suc (next_id s);
              sY = resolved kY mY s2; t = run s2 later
          in pending s2 kX = Some (Session X) \<and> pending s2 kY = Some (Session Y)
           \<and> getInput s2 = Some Y \<and> tree_title s2 = title Y \<and> tree_message s2 = None
           \<and> session_effects (resolved kX mX s2) = session_effects s2
           \<and> session_effects (rejected kX e s2) = session_effects s2
           \<and> tree_title sY = title Y \<and> tree_message sY = message mY
           \<and> session_effects (resolved kX mX sY) = session_effects sY
           \<and> session_effects (rejected kX e sY) = session_effects sY
           \<and> session_effects (resolved kX mX t) = session_effects t
           \<and> session_effects (rejected kX e t) = session_effects t)"
proof -
  let ?s = "run init es"
  let ?s2 = "setInput Y ?s"
  let ?kY = "Suc (next_id ?s)"
  let ?sY = "resolved ?kY mY ?s2"
  let ?t = "run ?s2 later"
  from assms(1) have lt: "kX < next_id ?s"
    by (rule reachable_allocated)
  then have ne: "kX \<noteq> ?kY" by simp
  have pX: "pending ?s2 kX = Some (Session X)"
    using assms(1) ne by (simp add: setInput_facts)
  have pY: "pending ?s2 ?kY = Some (Session Y)"
    by (simp add: setInput_facts)
  have cur: "c_input ?s2 = Some Y"
    by (simp add: setInput_facts)
  have nX: "\<not> is_current ?s2 X"
    using assms(2) by (simp add: is_current_def setInput_facts)
  have dX: "d_provider ?s2 \<noteq> Some kX"
    using ne by (simp add: setInput_facts)
  have lt2: "kX < next_id ?s2"
    using lt by (simp add: setInput_facts)
  have pX': "pending ?sY kX = Some (Session X)"
    using pX ne by (simp add: current_resolved [OF pY cur])
  have nX': "\<not> is_current ?sY X"
    using assms(2) by (simp add: is_current_def current_resolved [OF pY cur])
  have dX': "d_provider ?sY \<noteq> Some kX"
    using dX by (simp add: current_resolved [OF pY cur])
  from stale_run [OF pX nX dX lt2 assms(3)]
  have pT: "pending ?t kX = Some (Session X)" and nT: "\<not> is_current ?t X"
    and dT: "d_provider ?t \<noteq> Some kX"
    by blast+
  have "getInput ?s2 = Some Y" "tree_title ?s2 = title Y" "tree_message ?s2 = None"
    by (simp_all add: getInput_def setInput_facts)
  moreover have "tree_title ?sY = title Y" "tree_message ?sY = message mY"
    by (simp_all add: current_resolved [OF pY cur] setInput_facts)
  moreover note pX pY stale_session_effects [OF pX nX dX] stale_session_effects [OF pX' nX' dX']
    stale_session_effects [OF pT nT dT]
  ultimately show ?thesis
    unfolding Let_def by blast
qed

text \<open>\<open>setInput(a)\<close>, then \<open>setInput(b)\<close>; b resolves, its provider changes, the input is
  set to c, and only then a resolves: the view shows c and no message, as before a
  resolved. And when b resolves and then a, the view shows b and the message of the
  model of b.\<close>

theorem setInput_race_guard_witness:
  "pending (run init [SetInput (sample_input 0 ''a'')]) 1 = Some (Session (sample_input 0 ''a''))
   \<and> ident (sample_input 0 ''a'') \<noteq> ident (sample_input 1 ''b'')
   \<and> list_all (leaves_stale (ident (sample_input 0 ''a'')) 1)
        [Resolved 3 (sample_model 8), Changed 8, SetInput (sample_input 2 ''c'')]
   \<and> tree_title (run init
        [SetInput (sample_input 0 ''a''), SetInput (sample_input 1 ''b''),
         Resolved 3 (sample_model 8), Resolved 1 (sample_model 7)]) = ''b''
   \<and> tree_message (run init
        [SetInput (sample_input 0 ''a''), SetInput (sample_input 1 ''b''),
         Resolved 3 (sample_model 8), Resolved 1 (sample_model 7)]) = Some ''ready''
   \<and> session_effects (run init
        [SetInput (sample_input 0 ''a''), SetInput (sample_input 1 ''b''),
         Resolved 3 (sample_model 8), Changed 8, SetInput (sample_input 2 ''c''),
         Resolved 1 (sample_model 7)])
     = session_effects (run init
        [SetInput (sample_input 0 ''a''), SetInput (sample_input 1 ''b''),
         Resolved 3 (sample_model 8), Changed 8, SetInput (sample_input 2 ''c'')])"
proof -
  let ?X = "sample_input 0 ''a''"
  let ?Y = "sample_input 1 ''b''"
  let ?later = "[Resolved 3 (sample_model 8), Changed 8, SetInput (sample_input 2 ''c'')]"
  let ?s = "run init [SetInput ?X]"
  let ?sY = "resolved 3 (sample_model 8) (setInput ?Y ?s)"
  let ?t = "run (setInput ?Y ?s) ?later"
  have n: "next_id init = 0" "pending init = (\<lambda>_. None)"
    by (simp_all add: init_def)
  have s: "?s = setInput ?X init"
    by (simp add: run_def)
  have h1: "pending ?s 1 = Some (Session ?X)"
    by (simp add: s setInput_facts n)
  have h2: "ident ?X \<noteq> ident ?Y"
    by (simp add: sample_input_def)
  have h3: "list_all (leaves_stale (ident ?X) 1) ?later"
    by (simp add: sample_input_def)
  have k: "Suc (next_id ?s) = 3"
    by (simp add: s setInput_facts n)
  note g = setInput_race_guard [OF h1 h2 h3, of "sample_model 8" "sample_model 7"
      "Failure ''late''", unfolded Let_def k]
  from g have e: "session_effects (resolved 1 (sample_model 7) ?sY) = session_effects ?sY"
    and l: "session_effects (resolved 1 (sample_model 7) ?t) = session_effects ?t"
    by blast+
  from g have t: "tree_title ?sY = title ?Y" and m: "tree_message ?sY = message (sample_model 8)"
    by blast+
  from e have "tree_title (resolved 1 (sample_model 7) ?sY) = tree_title ?sY"
    and "tree_message (resolved 1 (sample_model 7) ?sY) = tree_message ?sY"
    by (simp_all add: session_effects_def)
  with t m have "tree_title (resolved 1 (sample_model 7) ?sY) = ''b''"
    and "tree_message (resolved 1 (sample_model 7) ?sY) = Some ''ready''"
    by (simp_all add: sample_input_def sample_model_def)
  then show ?thesis
    using h1 h2 h3 l by (simp add: run_def)
qed

text \<open>
  C1, as stated, fails when the two calls pass the same object. \<open>setInput(a)\<close>; the
  document of its history item opens; the refind command on that item calls
  \<open>setInput\<close> with the same object while the first resolution is in flight; the second
  resolution is fulfilled and the view shows its message. When the first resolution is
  fulfilled after that, the guard finds the object current: the view shows the message
  of the first model, and a third listener is registered.
\<close>

theorem setInput_race_guard_same_object_counterexample:
  "items (run init [SetInput (sample_input 0 ''a''), Opened 0 sample_doc]) 0
     = Fulfilled (add_then (sample_input 0 ''a'') sample_doc)
   \<and> pending (run init
        [SetInput (sample_input 0 ''a''), Opened 0 sample_doc,
         Refind (add_then (sample_input 0 ''a'') sample_doc)]) 1
     = Some (Session (sample_input 0 ''a''))
   \<and> getInput (run init
        [SetInput (sample_input 0 ''a''), Opened 0 sample_doc,
         Refind (add_then (sample_input 0 ''a'') sample_doc)])
     = Some (sample_input 0 ''a'')
   \<and> tree_message (run init
        [SetInput (sample_input 0 ''a''), Opened 0 sample_doc,
         Refind (add_then (sample_input 0 ''a'') sample_doc),
         Resolved 3 (sample_model 8)])
     = Some ''ready''
   \<and> tree_message (run init
        [SetInput (sample_input 0 ''a''), Opened 0 sample_doc,
         Refind (add_then (sample_input 0 ''a'') sample_doc),
         Resolved 3 (sample_model 8),
         Resolved 1 ((sample_model 7)\<lparr>message := Some ''stale''\<rparr>)])
     = Some ''stale''
   \<and> map sub_id (live (run init
        [SetInput (sample_input 0 ''a''), Opened 0 sample_doc,
         Refind (add_then (sample_input 0 ''a'') sample_doc),
         Resolved 3 (sample_model 8)]))
     = [4, 5]
   \<and> map sub_id (live (run init
        [SetInput (sample_input 0 ''a''), Opened 0 sample_doc,
         Refind (add_then (sample_input 0 ''a'') sample_doc),
         Resolved 3 (sample_model 8),
         Resolved 1 ((sample_model 7)\<lparr>message := Some ''stale''\<rparr>)]))
     = [4, 5, 6]
   \<and> session_effects (run init
        [SetInput (sample_input 0 ''a''), Opened 0 sample_doc,
         Refind (add_then (sample_input 0 ''a'') sample_doc),
         Resolved 3 (sample_model 8),
         Resolved 1 ((sample_model 7)\<lparr>message := Some ''stale''\<rparr>)])
     \<noteq> session_effects (run init
        [SetInput (sample_input 0 ''a''), Opened 0 sample_doc,
         Refind (add_then (sample_input 0 ''a'') sample_doc),
         Resolved 3 (sample_model 8)])"
  by (simp add: run_def ops frames Let_def init_def sample_input_def sample_model_def
      getInput_def update_def dispose_session_def session_effects_def add_then_def)

text \<open>The listener shows the message the model has when the event fires, and a session
  is disposed once, however many \<open>setInput\<close> calls follow.\<close>

lemma host_object_examples:
  "tree_message (run init
     [SetInput (sample_input 0 ''a''), Resolved 1 (sample_model 7),
      MessageChanged 1 (Some ''3 results''), Changed 7]) = Some ''3 results''"
  "tree_title (run init
     [SetInput (sample_input 0 ''a''), Resolved 1 (sample_model 7),
      TitleChanged 0 ''renamed'', Changed 7]) = ''renamed''"
  "disposed (run init
     [SetInput (sample_input 0 ''a''), Resolved 1 (sample_model 7),
      SetInput (sample_input 1 ''b''), SetInput (sample_input 2 ''c'')]) = [7]"
  by (simp_all add: run_def ops frames Let_def init_def sample_input_def sample_model_def
      fire_def update_def dispose_session_def)

end
